theory Spec2Isabelle
  imports Complex_Main "HOL-Library.Char_ord" "HOL-Library.List_Lexorder"
begin

section \<open>Schema: models/schema.ts\<close>

text \<open>
  The three tables of the store. A row is a record with one field per column; a nullable
  column is an \<open>option\<close>. Ids are the positive integers a \<open>serial\<close> column hands
  out, timestamps are points in time (\<open>new Date()\<close>, \<open>defaultNow()\<close>) supplied by
  the caller of an operation. The field names carry the table's initial because the three
  tables share the column names \<open>id\<close>, \<open>name\<close>, \<open>createdAt\<close> and \<open>updatedAt\<close>.
  The classes table has the nullable \<open>teacherId\<close> column that ClassService reads and
  writes. The index on \<open>classes(name, section)\<close> is a plain index, not a unique one.
\<close>

datatype role = RoleAdmin | RoleTeacher | RoleStudent

type_synonym date = nat

record User =
  u_id :: nat
  u_name :: string
  u_email :: string
  u_passwordHash :: string
  u_role :: role
  u_createdAt :: date
  u_updatedAt :: date

record Class =
  c_id :: nat
  c_name :: string
  c_section :: string
  c_teacherId :: "nat option"
  c_createdAt :: date
  c_updatedAt :: date

record Student =
  s_id :: nat
  s_name :: string
  s_age :: int
  s_classId :: "nat option"
  s_createdAt :: date
  s_updatedAt :: date

text \<open>
  The database: each table is the list of its rows in the order a sequential scan returns
  them, together with the two sequences behind the \<open>serial\<close> ids of the tables the
  services insert into.
\<close>

record db =
  users :: "User list"
  classes :: "Class list"
  students :: "Student list"
  classes_id_seq :: nat
  students_id_seq :: nat

section \<open>The query operators the services use\<close>

text \<open>
  SQL comparison is three-valued: \<open>eq(a, b)\<close> is NULL (here \<open>None\<close>) as soon as one
  side is NULL, and \<open>WHERE\<close> keeps the rows on which the condition is true, not the
  rows on which it is NULL. A column that is \<open>notNull\<close> is compared as \<open>Some\<close> of
  its value.
\<close>

definition sql_eq :: "'a option \<Rightarrow> 'a option \<Rightarrow> bool option" where
  "sql_eq a b = (case a of None \<Rightarrow> None | Some x \<Rightarrow> (case b of None \<Rightarrow> None | Some y \<Rightarrow> Some (x = y)))"

definition sql_and :: "bool option \<Rightarrow> bool option \<Rightarrow> bool option" where
  "sql_and p q =
     (if p = Some False \<or> q = Some False then Some False
      else if p = Some True \<and> q = Some True then Some True
      else None)"

definition sql_where :: "('r \<Rightarrow> bool option) \<Rightarrow> 'r list \<Rightarrow> 'r list" where
  "sql_where cond rows = filter (\<lambda>r. cond r = Some True) rows"

text \<open>\<open>const [row] = await ...\<close>: the first row of the result, or undefined.\<close>

definition first_row :: "'r list \<Rightarrow> 'r option" where
  "first_row rows = (case rows of [] \<Rightarrow> None | r # _ \<Rightarrow> Some r)"

text \<open>
  \<open>update(t).set(f).where(cond).returning()\<close>: the table after the update, and the
  updated rows.
\<close>

definition sql_update :: "('r \<Rightarrow> bool option) \<Rightarrow> ('r \<Rightarrow> 'r) \<Rightarrow> 'r list \<Rightarrow> 'r list \<times> 'r list" where
  "sql_update cond f rows =
     (map (\<lambda>r. if cond r = Some True then f r else r) rows, map f (sql_where cond rows))"

text \<open>
  \<open>insert(t).values(row).returning()\<close> into a table with primary key \<open>key\<close>: the
  table after the insert and the inserted row, or nothing when the key is taken.
\<close>

definition sql_insert :: "('r \<Rightarrow> nat) \<Rightarrow> 'r \<Rightarrow> 'r list \<Rightarrow> ('r list \<times> 'r list) option" where
  "sql_insert key row rows =
     (if key row \<in> set (map key rows) then None else Some (rows @ [row], [row]))"

text \<open>
  \<open>from(a).leftJoin(b, on)\<close>: every row of \<open>a\<close> with each row of \<open>b\<close> that
  matches it, or with NULLs when none does.
\<close>

definition leftJoin :: "'a list \<Rightarrow> 'b list \<Rightarrow> ('a \<Rightarrow> 'b \<Rightarrow> bool option) \<Rightarrow> ('a \<times> 'b option) list" where
  "leftJoin xs ys on =
     concat (map (\<lambda>x. case sql_where (on x) ys of
                          [] \<Rightarrow> [(x, None)]
                        | m # ms \<Rightarrow> map (\<lambda>y. (x, Some y)) (m # ms)) xs)"

section \<open>Errors\<close>

text \<open>
  One constructor for each \<open>throw new Error(...)\<close> of the services, named after its
  message; the two messages that quote the class carry its name and section.
\<close>

datatype error =
    ClassAlreadyExists string string
  | InvalidTeacherId
  | FailedToCreateClass
  | ClassNotFound
  | StudentNotFound
  | AlreadyEnrolled
  | SectionFull string string
  | FailedToEnroll
  | NotEnrolled
  | FailedToRemoveStudent
  | TeacherNotFound
  | TeacherSectionLimit
  | FailedToAssignTeacher
  | FailedToRemoveTeacher
  | ClassDoesNotExist
  | FailedToUpdateStudent
  | DatabaseError

text \<open>The failure kinds by which the specification names these errors.\<close>

datatype error_kind =
  NotFound | InvalidReference | Conflict | CapacityExceeded | PreconditionFailed | Internal

fun kind :: "error \<Rightarrow> error_kind" where
  "kind (ClassAlreadyExists n s) = Conflict"
| "kind InvalidTeacherId = InvalidReference"
| "kind ClassNotFound = NotFound"
| "kind StudentNotFound = NotFound"
| "kind AlreadyEnrolled = Conflict"
| "kind (SectionFull n s) = CapacityExceeded"
| "kind NotEnrolled = PreconditionFailed"
| "kind TeacherNotFound = InvalidReference"
| "kind TeacherSectionLimit = CapacityExceeded"
| "kind ClassDoesNotExist = InvalidReference"
| "kind FailedToCreateClass = Internal"
| "kind FailedToEnroll = Internal"
| "kind FailedToRemoveStudent = Internal"
| "kind FailedToAssignTeacher = Internal"
| "kind FailedToRemoveTeacher = Internal"
| "kind FailedToUpdateStudent = Internal"
| "kind DatabaseError = Internal"

section \<open>ClassService, in the version with teacher assignment\<close>

text \<open>
  Every operation takes the database and returns its outcome (\<open>Inl\<close> the error thrown,
  \<open>Inr\<close> the value returned) together with the database it leaves behind, so that what
  a failing call has written is part of the model.
\<close>

definition getClassById :: "nat \<Rightarrow> db \<Rightarrow> error + Class" where
  "getClassById cid d =
     (case first_row (take 1 (sql_where (\<lambda>c. sql_eq (Some (c_id c)) (Some cid)) (classes d))) of
        None \<Rightarrow> Inl ClassNotFound
      | Some foundClass \<Rightarrow> Inr foundClass)"

text \<open>\<open>count(students.id)\<close> over the students whose class is \<open>cid\<close>.\<close>

definition studentCount :: "nat \<Rightarrow> db \<Rightarrow> nat" where
  "studentCount cid d = length (sql_where (\<lambda>s. sql_eq (s_classId s) (Some cid)) (students d))"

definition enrollStudent :: "nat \<Rightarrow> nat \<Rightarrow> date \<Rightarrow> db \<Rightarrow> (error + unit) \<times> db" where
  "enrollStudent classId studentId now d =
     (case getClassById classId d of
        Inl e \<Rightarrow> (Inl e, d)
      | Inr classInfo \<Rightarrow>
          (case first_row (take 1 (sql_where (\<lambda>s. sql_eq (Some (s_id s)) (Some studentId)) (students d))) of
             None \<Rightarrow> (Inl StudentNotFound, d)
           | Some student \<Rightarrow>
               if s_classId student = Some classId then (Inl AlreadyEnrolled, d)
               else if 5 \<le> studentCount classId d
                 then (Inl (SectionFull (c_name classInfo) (c_section classInfo)), d)
               else
                 (case sql_update (\<lambda>s. sql_eq (Some (s_id s)) (Some studentId))
                         (\<lambda>s. s\<lparr>s_classId := Some classId, s_updatedAt := now\<rparr>) (students d) of
                    (table, returned) \<Rightarrow>
                      (case first_row returned of
                         None \<Rightarrow> (Inl FailedToEnroll, d\<lparr>students := table\<rparr>)
                       | Some updatedStudent \<Rightarrow> (Inr (), d\<lparr>students := table\<rparr>)))))"

text \<open>
  \<open>if (!student.classId)\<close> is JavaScript truthiness: it holds for null and for 0.
\<close>

definition removeStudentFromClass :: "nat \<Rightarrow> date \<Rightarrow> db \<Rightarrow> (error + unit) \<times> db" where
  "removeStudentFromClass studentId now d =
     (case first_row (take 1 (sql_where (\<lambda>s. sql_eq (Some (s_id s)) (Some studentId)) (students d))) of
        None \<Rightarrow> (Inl StudentNotFound, d)
      | Some student \<Rightarrow>
          if s_classId student = None \<or> s_classId student = Some 0 then (Inl NotEnrolled, d)
          else
            (case sql_update (\<lambda>s. sql_eq (Some (s_id s)) (Some studentId))
                    (\<lambda>s. s\<lparr>s_classId := None, s_updatedAt := now\<rparr>) (students d) of
               (table, returned) \<Rightarrow>
                 (case first_row returned of
                    None \<Rightarrow> (Inl FailedToRemoveStudent, d\<lparr>students := table\<rparr>)
                  | Some updatedStudent \<Rightarrow> (Inr (), d\<lparr>students := table\<rparr>))))"

text \<open>The teacher lookup shared by \<open>createClass\<close> and \<open>assignTeacherToClass\<close>.\<close>

definition teacherById :: "nat \<Rightarrow> db \<Rightarrow> User option" where
  "teacherById teacherId d =
     first_row (take 1 (sql_where
        (\<lambda>u. sql_and (sql_eq (Some (u_id u)) (Some teacherId)) (sql_eq (Some (u_role u)) (Some RoleTeacher)))
        (users d)))"

definition teacherClasses :: "nat \<Rightarrow> db \<Rightarrow> Class list" where
  "teacherClasses teacherId d = sql_where (\<lambda>c. sql_eq (c_teacherId c) (Some teacherId)) (classes d)"

definition assignTeacherToClass :: "nat \<Rightarrow> nat \<Rightarrow> date \<Rightarrow> db \<Rightarrow> (error + Class) \<times> db" where
  "assignTeacherToClass classId teacherId now d =
     (case getClassById classId d of
        Inl e \<Rightarrow> (Inl e, d)
      | Inr found \<Rightarrow>
          (case teacherById teacherId d of
             None \<Rightarrow> (Inl TeacherNotFound, d)
           | Some teacher \<Rightarrow>
               if 5 \<le> length (teacherClasses teacherId d) then (Inl TeacherSectionLimit, d)
               else
                 (case sql_update (\<lambda>c. sql_eq (Some (c_id c)) (Some classId))
                         (\<lambda>c. c\<lparr>c_teacherId := Some teacherId, c_updatedAt := now\<rparr>) (classes d) of
                    (table, returned) \<Rightarrow>
                      (case first_row returned of
                         None \<Rightarrow> (Inl FailedToAssignTeacher, d\<lparr>classes := table\<rparr>)
                       | Some updatedClass \<Rightarrow> (Inr updatedClass, d\<lparr>classes := table\<rparr>)))))"

definition removeTeacherFromClass :: "nat \<Rightarrow> date \<Rightarrow> db \<Rightarrow> (error + Class) \<times> db" where
  "removeTeacherFromClass classId now d =
     (case getClassById classId d of
        Inl e \<Rightarrow> (Inl e, d)
      | Inr found \<Rightarrow>
          (case sql_update (\<lambda>c. sql_eq (Some (c_id c)) (Some classId))
                  (\<lambda>c. c\<lparr>c_teacherId := None, c_updatedAt := now\<rparr>) (classes d) of
             (table, returned) \<Rightarrow>
               (case first_row returned of
                  None \<Rightarrow> (Inl FailedToRemoveTeacher, d\<lparr>classes := table\<rparr>)
                | Some updatedClass \<Rightarrow> (Inr updatedClass, d\<lparr>classes := table\<rparr>))))"

text \<open>
  \<open>createClass\<close>: \<open>teacherId\<close> is optional, and \<open>if (classData.teacherId)\<close> and
  \<open>classData.teacherId || null\<close> treat 0 as absent. The duplicate check reads one row
  with the given name (\<open>limit(1)\<close>) and compares its section. The new row takes its id
  from the sequence; the insert is refused by the primary key when that id is taken, and
  the sequence has advanced all the same.
\<close>

definition createClass :: "string \<Rightarrow> string \<Rightarrow> nat option \<Rightarrow> date \<Rightarrow> db \<Rightarrow> (error + Class) \<times> db" where
  "createClass name section teacherId now d =
     (let existingClass =
            first_row (take 1 (sql_where (\<lambda>c. sql_eq (Some (c_name c)) (Some name)) (classes d)))
      in if (case existingClass of None \<Rightarrow> False | Some c \<Rightarrow> c_section c = section)
           then (Inl (ClassAlreadyExists name section), d)
         else if (case teacherId of None \<Rightarrow> False | Some t \<Rightarrow> t \<noteq> 0 \<and> teacherById t d = None)
           then (Inl InvalidTeacherId, d)
         else
           (case sql_insert c_id
                   \<lparr>c_id = classes_id_seq d, c_name = name, c_section = section,
                    c_teacherId = (case teacherId of None \<Rightarrow> None | Some t \<Rightarrow> if t \<noteq> 0 then Some t else None),
                    c_createdAt = now, c_updatedAt = now\<rparr> (classes d) of
              None \<Rightarrow> (Inl DatabaseError, d\<lparr>classes_id_seq := Suc (classes_id_seq d)\<rparr>)
            | Some (table, returned) \<Rightarrow>
                (case first_row returned of
                   None \<Rightarrow> (Inl FailedToCreateClass, d\<lparr>classes := table, classes_id_seq := Suc (classes_id_seq d)\<rparr>)
                 | Some createdClass \<Rightarrow>
                     (Inr createdClass, d\<lparr>classes := table, classes_id_seq := Suc (classes_id_seq d)\<rparr>))))"

section \<open>StudentService, in the version that enforces the section limit\<close>

record ClassSummary =
  cs_id :: nat
  cs_name :: string
  cs_section :: string

record StudentWithClass = Student +
  swc_class :: "ClassSummary option"



text \<open>
  A field of an update or create request: absent (\<open>undefined\<close>), \<open>null\<close>, or a
  number.
\<close>

datatype 'a field = Undefined | Null | Val 'a

text \<open>
  The rows of \<open>students LEFT JOIN classes ON students.classId = classes.id\<close>, and the
  object the services build from one of them:
  \<open>class: student.class?.id ? student.class : null\<close>.
\<close>

definition studentsWithClasses :: "db \<Rightarrow> (Student \<times> Class option) list" where
  "studentsWithClasses d =
     leftJoin (students d) (classes d) (\<lambda>s c. sql_eq (s_classId s) (Some (c_id c)))"

definition withClass :: "Student \<times> Class option \<Rightarrow> StudentWithClass" where
  "withClass row =
     (case row of (student, cls) \<Rightarrow>
        \<lparr>s_id = s_id student, s_name = s_name student, s_age = s_age student,
         s_classId = s_classId student, s_createdAt = s_createdAt student,
         s_updatedAt = s_updatedAt student,
         swc_class = (case cls of
                        None \<Rightarrow> None
                      | Some c \<Rightarrow> if c_id c \<noteq> 0
                                 then Some \<lparr>cs_id = c_id c, cs_name = c_name c, cs_section = c_section c\<rparr>
                                 else None)\<rparr>)"

definition getStudentById :: "nat \<Rightarrow> db \<Rightarrow> error + StudentWithClass" where
  "getStudentById sid d =
     (case first_row (take 1 (sql_where (\<lambda>row. sql_eq (Some (s_id (fst row))) (Some sid))
                                (studentsWithClasses d))) of
        None \<Rightarrow> Inl StudentNotFound
      | Some row \<Rightarrow> Inr (withClass row))"

text \<open>
  \<open>createStudent\<close> checks the class before it inserts, and only when \<open>classId\<close> is
  truthy (a number other than 0); \<open>classId || null\<close> stores NULL otherwise. The new row
  takes its id from the sequence, as in \<open>createClass\<close>. An insert that returned no row
  would make \<open>createdStudent.id\<close> throw; that branch is kept, as a store failure.
\<close>

definition createStudent :: "string \<Rightarrow> int \<Rightarrow> nat field \<Rightarrow> date \<Rightarrow> db \<Rightarrow> (error + StudentWithClass) \<times> db" where
  "createStudent name age classId now d =
     (case (case classId of
              Val cid \<Rightarrow>
                if cid = 0 then None
                else (case first_row (take 1 (sql_where (\<lambda>c. sql_eq (Some (c_id c)) (Some cid)) (classes d))) of
                        None \<Rightarrow> Some ClassDoesNotExist
                      | Some existingClass \<Rightarrow>
                          if 5 \<le> studentCount cid d
                          then Some (SectionFull (c_name existingClass) (c_section existingClass))
                          else None)
            | _ \<Rightarrow> None) of
        Some e \<Rightarrow> (Inl e, d)
      | None \<Rightarrow>
          (case sql_insert s_id
                  \<lparr>s_id = students_id_seq d, s_name = name, s_age = age,
                   s_classId = (case classId of Val cid \<Rightarrow> if cid = 0 then None else Some cid | _ \<Rightarrow> None),
                   s_createdAt = now, s_updatedAt = now\<rparr> (students d) of
             None \<Rightarrow> (Inl DatabaseError, d\<lparr>students_id_seq := Suc (students_id_seq d)\<rparr>)
           | Some (table, returned) \<Rightarrow>
               (case first_row returned of
                  None \<Rightarrow> (Inl DatabaseError, d\<lparr>students := table, students_id_seq := Suc (students_id_seq d)\<rparr>)
                | Some createdStudent \<Rightarrow>
                    (getStudentById (s_id createdStudent)
                       (d\<lparr>students := table, students_id_seq := Suc (students_id_seq d)\<rparr>),
                     d\<lparr>students := table, students_id_seq := Suc (students_id_seq d)\<rparr>))))"

text \<open>
  \<open>updateStudent\<close>: an absent field of \<open>updateData\<close> leaves its column alone (the
  query builder drops \<open>undefined\<close> values of \<open>set\<close>); \<open>classId: null\<close> writes NULL.
\<close>

definition updateStudent ::
  "nat \<Rightarrow> string option \<Rightarrow> int option \<Rightarrow> nat field \<Rightarrow> date \<Rightarrow> db \<Rightarrow> (error + StudentWithClass) \<times> db" where
  "updateStudent sid name age classId now d =
     (case getStudentById sid d of
        Inl e \<Rightarrow> (Inl e, d)
      | Inr existingStudent \<Rightarrow>
          (case (case classId of
                   Val cid \<Rightarrow>
                     (case first_row (take 1 (sql_where (\<lambda>c. sql_eq (Some (c_id c)) (Some cid)) (classes d))) of
                        None \<Rightarrow> Some ClassDoesNotExist
                      | Some existingClass \<Rightarrow>
                          if s_classId existingStudent \<noteq> Some cid \<and> 5 \<le> studentCount cid d
                          then Some (SectionFull (c_name existingClass) (c_section existingClass))
                          else None)
                 | _ \<Rightarrow> None) of
             Some e \<Rightarrow> (Inl e, d)
           | None \<Rightarrow>
               (case sql_update (\<lambda>s. sql_eq (Some (s_id s)) (Some sid))
                       (\<lambda>s. s\<lparr>s_name := (case name of None \<Rightarrow> s_name s | Some n \<Rightarrow> n),
                               s_age := (case age of None \<Rightarrow> s_age s | Some a \<Rightarrow> a),
                               s_classId := (case classId of
                                               Undefined \<Rightarrow> s_classId s
                                             | Null \<Rightarrow> None
                                             | Val cid \<Rightarrow> Some cid),
                               s_updatedAt := now\<rparr>) (students d) of
                  (table, returned) \<Rightarrow>
                    (case first_row returned of
                       None \<Rightarrow> (Inl FailedToUpdateStudent, d\<lparr>students := table\<rparr>)
                     | Some updatedStudent \<Rightarrow>
                         (getStudentById sid (d\<lparr>students := table\<rparr>), d\<lparr>students := table\<rparr>)))))"


section \<open>AdminService: services/admin.service.ts\<close>

record DashboardStats =
  ds_totalStudents :: nat
  ds_activeClasses :: nat
  ds_totalTeachers :: nat
  ds_enrollmentRate :: int

text \<open>
  The count behind the enrollment rate:
  \<open>select count(*) from students where students.classId = students.classId\<close>.
\<close>

definition enrolledStudents :: "db \<Rightarrow> nat" where
  "enrolledStudents d = length (sql_where (\<lambda>s. sql_eq (s_classId s) (s_classId s)) (students d))"

text \<open>
  \<open>Math.round((enrolledStudents / totalStudents) * 100)\<close>, with the quotient taken in
  the reals and \<open>round\<close> rounding a half upwards, as \<open>Math.round\<close> does. JavaScript
  computes the quotient and the product in double precision, which can fall on the other
  side of a half; the two agree where the quotient is 0 or 1, and the properties below
  state the rate only there.
\<close>

definition getDashboardStats :: "db \<Rightarrow> DashboardStats" where
  "getDashboardStats d =
     (let total = length (students d);
          activeClasses = length (classes d);
          totalTeachers = length (sql_where (\<lambda>u. sql_eq (Some (u_role u)) (Some RoleTeacher)) (users d));
          enrolled = enrolledStudents d
      in \<lparr>ds_totalStudents = total, ds_activeClasses = activeClasses,
          ds_totalTeachers = totalTeachers,
          ds_enrollmentRate =
            (if 0 < total then round ((real enrolled / real total) * 100) else 0)\<rparr>)"

section \<open>Vocabulary of the properties\<close>

text \<open>
  The row with a given id, the class a student row refers to, and the number of students
  whose class reference is a given id, read off the tables directly.
\<close>

definition lookupClass :: "nat \<Rightarrow> db \<Rightarrow> Class option" where
  "lookupClass cid d = find (\<lambda>c. c_id c = cid) (classes d)"

definition lookupStudent :: "nat \<Rightarrow> db \<Rightarrow> Student option" where
  "lookupStudent sid d = find (\<lambda>s. s_id s = sid) (students d)"

definition classOf :: "Student \<Rightarrow> db \<Rightarrow> Class option" where
  "classOf st d = find (\<lambda>c. s_classId st = Some (c_id c)) (classes d)"

definition enrolledIn :: "nat \<Rightarrow> db \<Rightarrow> nat" where
  "enrolledIn cid d = length (filter (\<lambda>s. s_classId s = Some cid) (students d))"

text \<open>The primary keys of the schema: \<open>id: serial('id').primaryKey()\<close>.\<close>

definition students_pkey :: "db \<Rightarrow> bool" where
  "students_pkey d = distinct (map s_id (students d))"


text \<open>Every class has at most five students whose class reference is its id.\<close>

definition seat_bound :: "db \<Rightarrow> bool" where
  "seat_bound d = (\<forall>c \<in> set (classes d). enrolledIn (c_id c) d \<le> 5)"

text \<open>
  The operations of the enrollment and capacity manager, and a run of them, each at its
  own time: the run goes on while the operations succeed and is \<open>None\<close> as soon as one
  throws.
\<close>

datatype ecm_op =
    EnrollStudent nat nat
  | RemoveStudentFromClass nat
  | AssignTeacherToClass nat nat
  | RemoveTeacherFromClass nat

fun succeeded :: "(error + 'a) \<times> db \<Rightarrow> db option" where
  "succeeded (Inl e, d) = None"
| "succeeded (Inr v, d) = Some d"

fun ecm_step :: "ecm_op \<Rightarrow> date \<Rightarrow> db \<Rightarrow> db option" where
  "ecm_step (EnrollStudent classId studentId) now d = succeeded (enrollStudent classId studentId now d)"
| "ecm_step (RemoveStudentFromClass studentId) now d = succeeded (removeStudentFromClass studentId now d)"
| "ecm_step (AssignTeacherToClass classId teacherId) now d = succeeded (assignTeacherToClass classId teacherId now d)"
| "ecm_step (RemoveTeacherFromClass classId) now d = succeeded (removeTeacherFromClass classId now d)"

fun ecm_run :: "(ecm_op \<times> date) list \<Rightarrow> db \<Rightarrow> db option" where
  "ecm_run [] d = Some d"
| "ecm_run (step # rest) d =
     (case ecm_step (fst step) (snd step) d of None \<Rightarrow> None | Some d' \<Rightarrow> ecm_run rest d')"

text \<open>
  What \<open>updateStudent\<close> writes: the row it sets, and the database after the row with
  the given id has been set.
\<close>

definition updateRow :: "string option \<Rightarrow> int option \<Rightarrow> nat field \<Rightarrow> date \<Rightarrow> Student \<Rightarrow> Student" where
  "updateRow name age classId now s =
     s\<lparr>s_name := (case name of None \<Rightarrow> s_name s | Some n \<Rightarrow> n),
       s_age := (case age of None \<Rightarrow> s_age s | Some a \<Rightarrow> a),
       s_classId := (case classId of Undefined \<Rightarrow> s_classId s | Null \<Rightarrow> None | Val cid \<Rightarrow> Some cid),
       s_updatedAt := now\<rparr>"

definition afterUpdate :: "nat \<Rightarrow> string option \<Rightarrow> int option \<Rightarrow> nat field \<Rightarrow> date \<Rightarrow> db \<Rightarrow> db" where
  "afterUpdate sid name age classId now d =
     d\<lparr>students := map (\<lambda>s. if s_id s = sid then updateRow name age classId now s else s) (students d)\<rparr>"


section \<open>Example databases\<close>

definition exampleUser :: "nat \<Rightarrow> string \<Rightarrow> role \<Rightarrow> User" where
  "exampleUser i n r =
     \<lparr>u_id = i, u_name = n, u_email = n @ ''@school.test'', u_passwordHash = ''hash'',
      u_role = r, u_createdAt = 0, u_updatedAt = 0\<rparr>"

definition exampleClass :: "nat \<Rightarrow> string \<Rightarrow> string \<Rightarrow> nat option \<Rightarrow> Class" where
  "exampleClass i n sec t =
     \<lparr>c_id = i, c_name = n, c_section = sec, c_teacherId = t, c_createdAt = 0, c_updatedAt = 0\<rparr>"

definition exampleStudent :: "nat \<Rightarrow> string \<Rightarrow> nat option \<Rightarrow> Student" where
  "exampleStudent i n c =
     \<lparr>s_id = i, s_name = n, s_age = 12, s_classId = c, s_createdAt = 0, s_updatedAt = 0\<rparr>"

text \<open>
  Mathematics A is full with five students, Science A is empty, and student 6 has no
  class.
\<close>

definition fullClassDb :: db where
  "fullClassDb =
     \<lparr>users = [exampleUser 1 ''Tara'' RoleTeacher],
      classes = [exampleClass 1 ''Mathematics'' ''A'' (Some 1), exampleClass 2 ''Science'' ''A'' None],
      students = [exampleStudent 1 ''Eve'' (Some 1), exampleStudent 2 ''Dan'' (Some 1),
                  exampleStudent 3 ''Cat'' (Some 1), exampleStudent 4 ''Bob'' (Some 1),
                  exampleStudent 5 ''Ann'' (Some 1), exampleStudent 6 ''Fay'' None],
      classes_id_seq = 3, students_id_seq = 7\<rparr>"

text \<open>Teacher 1 owns the five sections of Mathematics; Science A has no teacher.\<close>

definition teacherLimitDb :: db where
  "teacherLimitDb =
     \<lparr>users = [exampleUser 1 ''Tara'' RoleTeacher],
      classes = [exampleClass 1 ''Mathematics'' ''A'' (Some 1), exampleClass 2 ''Mathematics'' ''B'' (Some 1),
                 exampleClass 3 ''Mathematics'' ''C'' (Some 1), exampleClass 4 ''Mathematics'' ''D'' (Some 1),
                 exampleClass 5 ''Mathematics'' ''E'' (Some 1), exampleClass 6 ''Science'' ''A'' None],
      students = [],
      classes_id_seq = 7, students_id_seq = 1\<rparr>"

text \<open>A fresh database, and one whose only student has no class.\<close>

definition emptyDb :: db where
  "emptyDb = \<lparr>users = [], classes = [], students = [], classes_id_seq = 1, students_id_seq = 1\<rparr>"

definition loneStudentDb :: db where
  "loneStudentDb =
     \<lparr>users = [], classes = [], students = [exampleStudent 1 ''Fay'' None],
      classes_id_seq = 1, students_id_seq = 2\<rparr>"

text \<open>Two students, both in Mathematics A.\<close>

definition enrolledPairDb :: db where
  "enrolledPairDb =
     \<lparr>users = [], classes = [exampleClass 1 ''Mathematics'' ''A'' None],
      students = [exampleStudent 1 ''Eve'' (Some 1), exampleStudent 2 ''Dan'' (Some 1)],
      classes_id_seq = 2, students_id_seq = 3\<rparr>"

text \<open>
  The database after \<open>createClass("Science", "A")\<close> and \<open>createClass("Science", "B")\<close>
  on a fresh one, and the same tables scanned in the opposite order.
\<close>

definition scienceDb :: db where
  "scienceDb = snd (createClass ''Science'' ''B'' None 2 (snd (createClass ''Science'' ''A'' None 1 emptyDb)))"

definition scienceDbReversed :: db where
  "scienceDbReversed = scienceDb\<lparr>classes := rev (classes scienceDb)\<rparr>"

section \<open>Reading the queries\<close>

lemma sql_eq_col [simp]: "(sql_eq a (Some y) = Some True) = (a = Some y)"
  by (simp add: sql_eq_def split: option.splits)

lemma sql_eq_self: "(sql_eq a a = Some True) = (a \<noteq> None)"
  by (simp add: sql_eq_def split: option.splits)

lemma first_row_take1 [simp]: "first_row (take (Suc 0) rows) = first_row rows"
  by (cases rows) (simp_all add: first_row_def)

lemma first_row_where: "first_row (sql_where cond rows) = find (\<lambda>r. cond r = Some True) rows"
  by (induction rows) (simp_all add: first_row_def sql_where_def)

lemma first_by_key [simp]:
  "first_row (sql_where (\<lambda>r. sql_eq (Some (key r)) (Some k)) rows) = find (\<lambda>r. key r = k) rows"
  by (simp add: first_row_where)

lemma sql_update_by_key:
  "sql_update (\<lambda>r. sql_eq (Some (key r)) (Some k)) f rows =
     (map (\<lambda>r. if key r = k then f r else r) rows, map f (filter (\<lambda>r. key r = k) rows))"
  by (simp add: sql_update_def sql_where_def)

lemma first_row_map_filter:
  "find P rows = Some r \<Longrightarrow> first_row (map f (filter P rows)) = Some (f r)"
  by (induction rows) (auto simp: first_row_def split: if_splits)

lemma find_map_update:
  "find (\<lambda>s. s_id s = k) xs = Some st \<Longrightarrow> (\<And>s. s_id (f s) = s_id s) \<Longrightarrow>
   find (\<lambda>s. s_id s = k) (map (\<lambda>s. if s_id s = k then f s else s) xs) = Some (f st)"
  by (induction xs) (auto split: if_splits)

lemma find_app:
  "find P (xs @ ys) = (case find P xs of None \<Rightarrow> find P ys | Some x \<Rightarrow> Some x)"
  by (induction xs) auto

lemma map_other_key:
  "k \<notin> set (map key rows) \<Longrightarrow> map (\<lambda>r. if key r = k then f r else r) rows = rows"
  by (induction rows) auto

lemma getClassById_lookup:
  "getClassById cid d = (case lookupClass cid d of None \<Rightarrow> Inl ClassNotFound | Some c \<Rightarrow> Inr c)"
  by (simp add: getClassById_def lookupClass_def)

lemma studentCount_enrolledIn: "studentCount cid d = enrolledIn cid d"
  by (simp add: studentCount_def enrolledIn_def sql_where_def)

lemma lookupStudent_after_update:
  assumes "lookupStudent sid d = Some st" "\<And>s. s_id (f s) = s_id s"
  shows "lookupStudent sid (d\<lparr>students := map (\<lambda>s. if s_id s = sid then f s else s) (students d)\<rparr>) = Some (f st)"
  using assms by (simp add: lookupStudent_def find_map_update)

section \<open>The operations of ClassService, case by case\<close>

lemma enrollStudent_cases:
  "(lookupClass classId d = None \<longrightarrow> enrollStudent classId studentId now d = (Inl ClassNotFound, d)) \<and>
   (lookupClass classId d \<noteq> None \<and> lookupStudent studentId d = None \<longrightarrow>
      enrollStudent classId studentId now d = (Inl StudentNotFound, d)) \<and>
   (\<forall>cls st. lookupClass classId d = Some cls \<and> lookupStudent studentId d = Some st \<longrightarrow>
      enrollStudent classId studentId now d =
        (if s_classId st = Some classId then (Inl AlreadyEnrolled, d)
         else if 5 \<le> enrolledIn classId d then (Inl (SectionFull (c_name cls) (c_section cls)), d)
         else (Inr (),
               d\<lparr>students := map (\<lambda>s. if s_id s = studentId
                                         then s\<lparr>s_classId := Some classId, s_updatedAt := now\<rparr> else s)
                                  (students d)\<rparr>)))"
  by (auto simp: enrollStudent_def getClassById_lookup studentCount_enrolledIn sql_update_by_key
        first_row_map_filter lookupStudent_def split: option.splits)

lemma removeStudentFromClass_cases:
  "removeStudentFromClass studentId now d =
     (case lookupStudent studentId d of
        None \<Rightarrow> (Inl StudentNotFound, d)
      | Some st \<Rightarrow>
          if s_classId st = None \<or> s_classId st = Some 0 then (Inl NotEnrolled, d)
          else (Inr (),
                d\<lparr>students := map (\<lambda>s. if s_id s = studentId
                                         then s\<lparr>s_classId := None, s_updatedAt := now\<rparr> else s)
                                  (students d)\<rparr>))"
  by (auto simp: removeStudentFromClass_def sql_update_by_key first_row_map_filter lookupStudent_def
        split: option.splits)

section \<open>The seat bound\<close>

lemma count_after_move_in:
  "distinct (map s_id xs) \<Longrightarrow>
   length (filter (\<lambda>s. s_classId s = Some c)
       (map (\<lambda>s. if s_id s = k then s\<lparr>s_classId := Some c, s_updatedAt := t\<rparr> else s) xs))
   \<le> Suc (length (filter (\<lambda>s. s_classId s = Some c) xs))"
proof (induction xs)
  case Nil
  then show ?case by simp
next
  case (Cons x xs)
  show ?case
  proof (cases "s_id x = k")
    case True
    with Cons.prems have "k \<notin> set (map s_id xs)" by auto
    then have "map (\<lambda>s. if s_id s = k then s\<lparr>s_classId := Some c, s_updatedAt := t\<rparr> else s) xs = xs"
      by (rule map_other_key)
    with True show ?thesis by simp
  next
    case False
    with Cons show ?thesis by simp
  qed
qed

lemma count_after_move_other:
  "v \<noteq> Some c' \<Longrightarrow>
   length (filter (\<lambda>s. s_classId s = Some c')
       (map (\<lambda>s. if s_id s = k then s\<lparr>s_classId := v, s_updatedAt := t\<rparr> else s) xs))
   \<le> length (filter (\<lambda>s. s_classId s = Some c') xs)"
  by (induction xs) auto

lemma ids_after_update:
  "map s_id (map (\<lambda>s. if s_id s = k then s\<lparr>s_classId := v, s_updatedAt := t\<rparr> else s) xs) = map s_id xs"
  by (induction xs) auto

lemma enrollStudent_keeps:
  assumes ok: "enrollStudent classId studentId now d = (Inr u, d')"
    and pk: "students_pkey d" and sb: "seat_bound d"
  shows "seat_bound d' \<and> students_pkey d'"
proof -
  obtain cls where cls: "lookupClass classId d = Some cls"
    using ok enrollStudent_cases[of classId d studentId now] by (cases "lookupClass classId d") auto
  obtain st where st: "lookupStudent studentId d = Some st"
    using ok cls enrollStudent_cases[of classId d studentId now] by (cases "lookupStudent studentId d") auto
  let ?ss = "map (\<lambda>s. if s_id s = studentId then s\<lparr>s_classId := Some classId, s_updatedAt := now\<rparr> else s) (students d)"
  from ok cls st enrollStudent_cases[of classId d studentId now]
  have free: "enrolledIn classId d < 5" and d': "d' = d\<lparr>students := ?ss\<rparr>"
    by (auto split: if_splits)
  have "enrolledIn (c_id c) d' \<le> 5" if c: "c \<in> set (classes d)" for c
  proof (cases "c_id c = classId")
    case True
    have "enrolledIn classId d' \<le> Suc (enrolledIn classId d)"
      using pk count_after_move_in[of "students d" classId studentId now]
      by (simp add: d' enrolledIn_def students_pkey_def)
    with free True show ?thesis by simp
  next
    case False
    then have "Some classId \<noteq> Some (c_id c)" by simp
    from count_after_move_other[OF this, of studentId now "students d"]
    have "enrolledIn (c_id c) d' \<le> enrolledIn (c_id c) d"
      by (simp add: d' enrolledIn_def)
    with sb c show ?thesis by (auto simp: seat_bound_def)
  qed
  moreover have "students_pkey d'"
    using pk by (simp add: d' students_pkey_def ids_after_update del: map_map)
  ultimately show ?thesis by (simp add: seat_bound_def d')
qed

lemma removeStudentFromClass_keeps:
  assumes ok: "removeStudentFromClass studentId now d = (Inr u, d')"
    and pk: "students_pkey d" and sb: "seat_bound d"
  shows "seat_bound d' \<and> students_pkey d'"
proof -
  let ?ss = "map (\<lambda>s. if s_id s = studentId then s\<lparr>s_classId := None, s_updatedAt := now\<rparr> else s) (students d)"
  from ok have d': "d' = d\<lparr>students := ?ss\<rparr>"
    by (auto simp: removeStudentFromClass_cases split: option.splits if_splits)
  have "enrolledIn (c_id c) d' \<le> 5" if c: "c \<in> set (classes d)" for c
  proof -
    have "None \<noteq> Some (c_id c)" by simp
    from count_after_move_other[OF this, of studentId now "students d"]
    have "enrolledIn (c_id c) d' \<le> enrolledIn (c_id c) d"
      by (simp add: d' enrolledIn_def)
    with sb c show ?thesis by (auto simp: seat_bound_def)
  qed
  moreover have "students_pkey d'"
    using pk by (simp add: d' students_pkey_def ids_after_update del: map_map)
  ultimately show ?thesis by (simp add: seat_bound_def d')
qed

lemma seat_bound_classes_update:
  assumes "seat_bound d" and "\<And>c. c_id (g c) = c_id c"
  shows "seat_bound (d\<lparr>classes := map g (classes d)\<rparr>)"
  using assms by (auto simp: seat_bound_def enrolledIn_def)

lemma assignTeacherToClass_keeps:
  assumes ok: "assignTeacherToClass classId teacherId now d = (Inr u, d')"
    and pk: "students_pkey d" and sb: "seat_bound d"
  shows "seat_bound d' \<and> students_pkey d'"
proof -
  let ?g = "\<lambda>c. if c_id c = classId then c\<lparr>c_teacherId := Some teacherId, c_updatedAt := now\<rparr> else c"
  from ok have d': "d' = d\<lparr>classes := map ?g (classes d)\<rparr>"
    by (auto simp: assignTeacherToClass_def sql_update_by_key split: sum.splits option.splits if_splits)
  have "seat_bound d'" unfolding d' by (rule seat_bound_classes_update[OF sb]) simp
  moreover have "students_pkey d'" using pk by (simp add: d' students_pkey_def)
  ultimately show ?thesis by simp
qed

lemma removeTeacherFromClass_keeps:
  assumes ok: "removeTeacherFromClass classId now d = (Inr u, d')"
    and pk: "students_pkey d" and sb: "seat_bound d"
  shows "seat_bound d' \<and> students_pkey d'"
proof -
  let ?g = "\<lambda>c. if c_id c = classId then c\<lparr>c_teacherId := None, c_updatedAt := now\<rparr> else c"
  from ok have d': "d' = d\<lparr>classes := map ?g (classes d)\<rparr>"
    by (auto simp: removeTeacherFromClass_def sql_update_by_key split: sum.splits option.splits if_splits)
  have "seat_bound d'" unfolding d' by (rule seat_bound_classes_update[OF sb]) simp
  moreover have "students_pkey d'" using pk by (simp add: d' students_pkey_def)
  ultimately show ?thesis by simp
qed

lemma succeeded_Some: "succeeded r = Some d' \<Longrightarrow> \<exists>v. r = (Inr v, d')"
  by (cases r rule: succeeded.cases) auto

lemma ecm_step_keeps:
  assumes "ecm_step op now d = Some d'" "students_pkey d" "seat_bound d"
  shows "seat_bound d' \<and> students_pkey d'"
proof (cases op)
  case (EnrollStudent c s)
  with assms(1) obtain v where "enrollStudent c s now d = (Inr v, d')"
    by (auto dest: succeeded_Some)
  then show ?thesis using assms(2,3) by (rule enrollStudent_keeps)
next
  case (RemoveStudentFromClass s)
  with assms(1) obtain v where "removeStudentFromClass s now d = (Inr v, d')"
    by (auto dest: succeeded_Some)
  then show ?thesis using assms(2,3) by (rule removeStudentFromClass_keeps)
next
  case (AssignTeacherToClass c t)
  with assms(1) obtain v where "assignTeacherToClass c t now d = (Inr v, d')"
    by (auto dest: succeeded_Some)
  then show ?thesis using assms(2,3) by (rule assignTeacherToClass_keeps)
next
  case (RemoveTeacherFromClass c)
  with assms(1) obtain v where "removeTeacherFromClass c now d = (Inr v, d')"
    by (auto dest: succeeded_Some)
  then show ?thesis using assms(2,3) by (rule removeTeacherFromClass_keeps)
qed

lemma ecm_run_keeps:
  "ecm_run steps d = Some d' \<Longrightarrow> students_pkey d \<Longrightarrow> seat_bound d \<Longrightarrow> seat_bound d' \<and> students_pkey d'"
proof (induction steps arbitrary: d)
  case Nil
  then show ?case by simp
next
  case (Cons step steps)
  from Cons.prems(1) obtain d1 where s1: "ecm_step (fst step) (snd step) d = Some d1"
    and rest: "ecm_run steps d1 = Some d'"
    by (auto split: option.splits)
  from ecm_step_keeps[OF s1 Cons.prems(2,3)] have "students_pkey d1" "seat_bound d1" by simp_all
  with Cons.IH[OF rest] show ?case by simp
qed

text \<open>
  C1. In a database whose student ids are a key and in which every class has at most five
  students referring to it, a run of \<open>enrollStudent\<close>, \<open>removeStudentFromClass\<close>,
  \<open>assignTeacherToClass\<close> and \<open>removeTeacherFromClass\<close> calls that all succeed ends in
  a database in which every class still has at most five students referring to it. Every
  prefix of such a run is such a run, so the bound holds at each point of it.
\<close>

theorem seat_bound_preserved:
  assumes "ecm_run steps d = Some d'" and "students_pkey d" and "seat_bound d"
  shows "seat_bound d'"
  using ecm_run_keeps[OF assms] by simp

theorem seat_bound_preserved_witness:
  "students_pkey fullClassDb \<and> seat_bound fullClassDb \<and>
   (\<exists>d'. ecm_run [(EnrollStudent 2 6, 10), (AssignTeacherToClass 2 1, 11),
                   (RemoveStudentFromClass 1, 12), (EnrollStudent 1 6, 13),
                   (RemoveTeacherFromClass 1, 14)] fullClassDb = Some d' \<and> seat_bound d')"
proof -
  have pk: "students_pkey fullClassDb" by code_simp
  have sb: "seat_bound fullClassDb" by code_simp
  have "ecm_run [(EnrollStudent 2 6, 10), (AssignTeacherToClass 2 1, 11),
                   (RemoveStudentFromClass 1, 12), (EnrollStudent 1 6, 13),
                   (RemoveTeacherFromClass 1, 14)] fullClassDb \<noteq> None"
    by code_simp
  then obtain d' where run: "ecm_run [(EnrollStudent 2 6, 10), (AssignTeacherToClass 2 1, 11),
                   (RemoveStudentFromClass 1, 12), (EnrollStudent 1 6, 13),
                   (RemoveTeacherFromClass 1, 14)] fullClassDb = Some d'"
    by blast
  from seat_bound_preserved[OF run pk sb] run pk sb show ?thesis by blast
qed

text \<open>
  C2. \<open>enrollStudent\<close> checks in this order: the class exists (else "Class not found"),
  the student exists (else "Student not found"), the student is not already in the class
  (else a conflict), the class has fewer than five students (else it is full). Each failure
  leaves the database as it was. Otherwise it succeeds, and the student's row then carries
  the class id and the time of the call.
\<close>

theorem enrollStudent_precedence:
  "(lookupClass classId d = None \<longrightarrow>
      enrollStudent classId studentId now d = (Inl ClassNotFound, d)) \<and>
   (lookupClass classId d \<noteq> None \<and> lookupStudent studentId d = None \<longrightarrow>
      enrollStudent classId studentId now d = (Inl StudentNotFound, d)) \<and>
   (\<forall>cls st. lookupClass classId d = Some cls \<and> lookupStudent studentId d = Some st \<longrightarrow>
      (s_classId st = Some classId \<longrightarrow>
         enrollStudent classId studentId now d = (Inl AlreadyEnrolled, d)) \<and>
      (s_classId st \<noteq> Some classId \<and> 5 \<le> enrolledIn classId d \<longrightarrow>
         enrollStudent classId studentId now d = (Inl (SectionFull (c_name cls) (c_section cls)), d)) \<and>
      (s_classId st \<noteq> Some classId \<and> enrolledIn classId d < 5 \<longrightarrow>
         fst (enrollStudent classId studentId now d) = Inr () \<and>
         lookupStudent studentId (snd (enrollStudent classId studentId now d))
           = Some (st\<lparr>s_classId := Some classId, s_updatedAt := now\<rparr>) \<and>
         classes (snd (enrollStudent classId studentId now d)) = classes d)) \<and>
   kind ClassNotFound = NotFound \<and> kind StudentNotFound = NotFound \<and>
   kind AlreadyEnrolled = Conflict \<and> (\<forall>n s. kind (SectionFull n s) = CapacityExceeded)"
proof (intro conjI allI impI)
  show "lookupClass classId d = None \<Longrightarrow> enrollStudent classId studentId now d = (Inl ClassNotFound, d)"
    using enrollStudent_cases[of classId d studentId now] by simp
  show "lookupClass classId d \<noteq> None \<and> lookupStudent studentId d = None \<Longrightarrow>
        enrollStudent classId studentId now d = (Inl StudentNotFound, d)"
    using enrollStudent_cases[of classId d studentId now] by simp
next
  fix cls st
  assume both: "lookupClass classId d = Some cls \<and> lookupStudent studentId d = Some st"
  then have eq: "enrollStudent classId studentId now d =
        (if s_classId st = Some classId then (Inl AlreadyEnrolled, d)
         else if 5 \<le> enrolledIn classId d then (Inl (SectionFull (c_name cls) (c_section cls)), d)
         else (Inr (),
               d\<lparr>students := map (\<lambda>s. if s_id s = studentId
                                         then s\<lparr>s_classId := Some classId, s_updatedAt := now\<rparr> else s)
                                  (students d)\<rparr>))"
    using enrollStudent_cases[of classId d studentId now] by blast
  show "s_classId st = Some classId \<Longrightarrow> enrollStudent classId studentId now d = (Inl AlreadyEnrolled, d)"
    by (simp add: eq)
  show "s_classId st \<noteq> Some classId \<and> 5 \<le> enrolledIn classId d \<Longrightarrow>
        enrollStudent classId studentId now d = (Inl (SectionFull (c_name cls) (c_section cls)), d)"
    by (simp add: eq)
  assume free: "s_classId st \<noteq> Some classId \<and> enrolledIn classId d < 5"
  then show "fst (enrollStudent classId studentId now d) = Inr ()"
    by (simp add: eq)
  from free show "classes (snd (enrollStudent classId studentId now d)) = classes d"
    by (simp add: eq)
  have "lookupStudent studentId
          (d\<lparr>students := map (\<lambda>s. if s_id s = studentId
                                    then s\<lparr>s_classId := Some classId, s_updatedAt := now\<rparr> else s)
                             (students d)\<rparr>)
        = Some (st\<lparr>s_classId := Some classId, s_updatedAt := now\<rparr>)"
    using both by (intro lookupStudent_after_update) simp_all
  with free show "lookupStudent studentId (snd (enrollStudent classId studentId now d))
           = Some (st\<lparr>s_classId := Some classId, s_updatedAt := now\<rparr>)"
    by (simp add: eq)
qed simp_all

theorem enrollStudent_precedence_witness:
  "enrollStudent 9 6 10 fullClassDb = (Inl ClassNotFound, fullClassDb) \<and>
   enrollStudent 2 9 10 fullClassDb = (Inl StudentNotFound, fullClassDb) \<and>
   enrollStudent 1 5 10 fullClassDb = (Inl AlreadyEnrolled, fullClassDb) \<and>
   enrollStudent 1 6 10 fullClassDb
     = (Inl (SectionFull (c_name (exampleClass 1 ''Mathematics'' ''A'' (Some 1)))
                         (c_section (exampleClass 1 ''Mathematics'' ''A'' (Some 1)))), fullClassDb) \<and>
   fst (enrollStudent 2 6 10 fullClassDb) = Inr () \<and>
   lookupStudent 6 (snd (enrollStudent 2 6 10 fullClassDb))
     = Some ((exampleStudent 6 ''Fay'' None)\<lparr>s_classId := Some 2, s_updatedAt := 10\<rparr>)"
proof -
  have c9: "lookupClass 9 fullClassDb = None" by code_simp
  have c1: "lookupClass 1 fullClassDb = Some (exampleClass 1 ''Mathematics'' ''A'' (Some 1))" by code_simp
  have c2: "lookupClass 2 fullClassDb = Some (exampleClass 2 ''Science'' ''A'' None)" by code_simp
  have s9: "lookupStudent 9 fullClassDb = None" by code_simp
  have s5: "lookupStudent 5 fullClassDb = Some (exampleStudent 5 ''Ann'' (Some 1))" by code_simp
  have s6: "lookupStudent 6 fullClassDb = Some (exampleStudent 6 ''Fay'' None)" by code_simp
  have n1: "5 \<le> enrolledIn 1 fullClassDb" by code_simp
  have n2: "enrolledIn 2 fullClassDb < 5" by code_simp
  have f5: "s_classId (exampleStudent 5 ''Ann'' (Some 1)) = Some 1" by code_simp
  have f61: "s_classId (exampleStudent 6 ''Fay'' None) \<noteq> Some 1" by code_simp
  have f62: "s_classId (exampleStudent 6 ''Fay'' None) \<noteq> Some 2" by code_simp
  have r1: "enrollStudent 9 6 10 fullClassDb = (Inl ClassNotFound, fullClassDb)"
    using enrollStudent_precedence[of 9 fullClassDb 6 10] c9 by blast
  have r2: "enrollStudent 2 9 10 fullClassDb = (Inl StudentNotFound, fullClassDb)"
    using enrollStudent_precedence[of 2 fullClassDb 9 10] c2 s9 by simp
  have r3: "enrollStudent 1 5 10 fullClassDb = (Inl AlreadyEnrolled, fullClassDb)"
    using enrollStudent_precedence[of 1 fullClassDb 5 10] c1 s5 f5 by blast
  have r4: "enrollStudent 1 6 10 fullClassDb
     = (Inl (SectionFull (c_name (exampleClass 1 ''Mathematics'' ''A'' (Some 1)))
                         (c_section (exampleClass 1 ''Mathematics'' ''A'' (Some 1)))), fullClassDb)"
    using enrollStudent_precedence[of 1 fullClassDb 6 10] c1 s6 f61 n1 by blast
  have r5: "fst (enrollStudent 2 6 10 fullClassDb) = Inr () \<and>
   lookupStudent 6 (snd (enrollStudent 2 6 10 fullClassDb))
     = Some ((exampleStudent 6 ''Fay'' None)\<lparr>s_classId := Some 2, s_updatedAt := 10\<rparr>)"
    using enrollStudent_precedence[of 2 fullClassDb 6 10] c2 s6 f62 n2 by blast
  from r1 r2 r3 r4 r5 show ?thesis by blast
qed

section \<open>StudentService, case by case\<close>

lemma find_leftJoin:
  "find (\<lambda>row. P (fst row)) (leftJoin xs ys on) =
     (case find P xs of None \<Rightarrow> None | Some x \<Rightarrow> Some (x, first_row (sql_where (on x) ys)))"
proof (induction xs)
  case Nil
  then show ?case by (simp add: leftJoin_def)
next
  case (Cons x xs)
  then have IH: "find (\<lambda>row. P (fst row)) (concat (map (\<lambda>x. case sql_where (on x) ys of
                          [] \<Rightarrow> [(x, None)]
                        | m # ms \<Rightarrow> map (\<lambda>y. (x, Some y)) (m # ms)) xs)) =
     (case find P xs of None \<Rightarrow> None | Some x \<Rightarrow> Some (x, first_row (sql_where (on x) ys)))"
    by (simp add: leftJoin_def)
  have none: "\<not> P x \<Longrightarrow> find (\<lambda>row. P (fst row)) (map (\<lambda>y. (x, Some y)) zs) = None" for zs :: "'b list"
    by (induction zs) auto
  show ?case
    by (cases "sql_where (on x) ys") (auto simp: leftJoin_def IH first_row_def none find_app
          split: option.splits)
qed

lemma getStudentById_lookup:
  "getStudentById sid d =
     (case lookupStudent sid d of
        None \<Rightarrow> Inl StudentNotFound
      | Some st \<Rightarrow> Inr (withClass (st, classOf st d)))"
  using find_leftJoin[of "\<lambda>s. s_id s = sid" "students d" "classes d"
          "\<lambda>s c. sql_eq (s_classId s) (Some (c_id c))"]
  by (simp add: getStudentById_def studentsWithClasses_def first_row_where lookupStudent_def
        classOf_def split: option.splits)

lemma withClass_fields [simp]:
  "s_id (withClass (st, c)) = s_id st" "s_name (withClass (st, c)) = s_name st"
  "s_classId (withClass (st, c)) = s_classId st" "s_updatedAt (withClass (st, c)) = s_updatedAt st"
  by (simp_all add: withClass_def)

lemma updateRow_fields [simp]:
  "s_id (updateRow name age classId now s) = s_id s"
  "s_classId (updateRow name age (Val c) now s) = Some c"
  "s_classId (updateRow name age Null now s) = None"
  "s_classId (updateRow name age Undefined now s) = s_classId s"
  "s_updatedAt (updateRow name age classId now s) = now"
  by (simp_all add: updateRow_def)

lemma lookupStudent_afterUpdate:
  "lookupStudent sid d = Some st \<Longrightarrow>
   lookupStudent sid (afterUpdate sid name age classId now d) = Some (updateRow name age classId now st)"
  unfolding afterUpdate_def by (rule lookupStudent_after_update) simp_all

lemma afterUpdate_tables [simp]:
  "classes (afterUpdate sid name age classId now d) = classes d"
  "users (afterUpdate sid name age classId now d) = users d"
  by (simp_all add: afterUpdate_def)

lemma updateStudent_write:
  assumes st: "lookupStudent sid d = Some st"
  shows "(case sql_update (\<lambda>s. sql_eq (Some (s_id s)) (Some sid))
                       (\<lambda>s. s\<lparr>s_name := (case name of None \<Rightarrow> s_name s | Some n \<Rightarrow> n),
                               s_age := (case age of None \<Rightarrow> s_age s | Some a \<Rightarrow> a),
                               s_classId := (case classId of
                                               Undefined \<Rightarrow> s_classId s
                                             | Null \<Rightarrow> None
                                             | Val cid \<Rightarrow> Some cid),
                               s_updatedAt := now\<rparr>) (students d) of
                  (table, returned) \<Rightarrow>
                    (case first_row returned of
                       None \<Rightarrow> (Inl FailedToUpdateStudent, d\<lparr>students := table\<rparr>)
                     | Some updatedStudent \<Rightarrow>
                         (getStudentById sid (d\<lparr>students := table\<rparr>), d\<lparr>students := table\<rparr>)))
     = (Inr (withClass (updateRow name age classId now st,
                        classOf (updateRow name age classId now st) (afterUpdate sid name age classId now d))),
        afterUpdate sid name age classId now d)"
proof -
  have after: "lookupStudent sid (afterUpdate sid name age classId now d) = Some (updateRow name age classId now st)"
    by (rule lookupStudent_afterUpdate[OF st])
  have ret: "first_row (map (updateRow name age classId now) (filter (\<lambda>s. s_id s = sid) (students d)))
              = Some (updateRow name age classId now st)"
    using st by (simp add: first_row_map_filter lookupStudent_def)
  have fold: "(\<lambda>s. s\<lparr>s_name := (case name of None \<Rightarrow> s_name s | Some n \<Rightarrow> n),
                               s_age := (case age of None \<Rightarrow> s_age s | Some a \<Rightarrow> a),
                               s_classId := (case classId of
                                               Undefined \<Rightarrow> s_classId s
                                             | Null \<Rightarrow> None
                                             | Val cid \<Rightarrow> Some cid),
                               s_updatedAt := now\<rparr>) = updateRow name age classId now"
    by (rule ext) (simp add: updateRow_def)
  show ?thesis
    unfolding fold sql_update_by_key
    using after ret by (simp add: getStudentById_lookup afterUpdate_def)
qed

lemma updateStudent_cases:
  assumes st: "lookupStudent sid d = Some st"
  shows "updateStudent sid name age classId now d =
     (let d' = afterUpdate sid name age classId now d;
          st' = updateRow name age classId now st;
          done = (Inr (withClass (st', classOf st' d')), d')
      in case classId of
           Val cid \<Rightarrow>
             (case lookupClass cid d of
                None \<Rightarrow> (Inl ClassDoesNotExist, d)
              | Some cls \<Rightarrow>
                  if s_classId st \<noteq> Some cid \<and> 5 \<le> enrolledIn cid d
                  then (Inl (SectionFull (c_name cls) (c_section cls)), d)
                  else done)
         | _ \<Rightarrow> done)"
  unfolding updateStudent_def updateStudent_write[OF st] Let_def
  by (simp add: getStudentById_lookup st studentCount_enrolledIn lookupClass_def
        split: field.splits option.splits)

text \<open>
  C6. Let student \<open>sid\<close> exist with class reference \<open>c\<close>, the id of an existing class
  (the foreign key of \<open>students.classId\<close>). Then \<open>updateStudent\<close> with
  \<open>classId = c\<close> succeeds whatever the number of students of \<open>c\<close> is, and leaves the
  reference at \<open>c\<close> with the time of the call. For any existing target class,
  \<open>updateStudent\<close> fails on capacity exactly when the target is not the student's
  current class and already has five students.
\<close>

theorem updateStudent_same_class:
  assumes st: "lookupStudent sid d = Some st"
    and cur: "s_classId st = Some c"
    and cls: "lookupClass c d = Some cls"
  shows "(\<exists>sw. updateStudent sid name age (Val c) now d = (Inr sw, afterUpdate sid name age (Val c) now d)
            \<and> s_classId sw = Some c)
       \<and> (\<exists>st'. lookupStudent sid (afterUpdate sid name age (Val c) now d) = Some st'
            \<and> s_classId st' = Some c \<and> s_updatedAt st' = now)
       \<and> (\<forall>target tcls. lookupClass target d = Some tcls \<longrightarrow>
            ((\<exists>n s. fst (updateStudent sid name age (Val target) now d) = Inl (SectionFull n s))
               \<longleftrightarrow> (target \<noteq> c \<and> 5 \<le> enrolledIn target d)))"
proof (intro conjI allI impI)
  show "\<exists>sw. updateStudent sid name age (Val c) now d = (Inr sw, afterUpdate sid name age (Val c) now d)
            \<and> s_classId sw = Some c"
    by (simp add: updateStudent_cases[OF st] cls cur Let_def)
  show "\<exists>st'. lookupStudent sid (afterUpdate sid name age (Val c) now d) = Some st'
            \<and> s_classId st' = Some c \<and> s_updatedAt st' = now"
    by (simp add: lookupStudent_afterUpdate[OF st])
next
  fix target tcls assume t: "lookupClass target d = Some tcls"
  show "(\<exists>n s. fst (updateStudent sid name age (Val target) now d) = Inl (SectionFull n s))
               \<longleftrightarrow> (target \<noteq> c \<and> 5 \<le> enrolledIn target d)"
    using cur by (auto simp: updateStudent_cases[OF st] t Let_def)
qed

theorem updateStudent_same_class_witness:
  "5 \<le> enrolledIn 1 fullClassDb \<and>
   (\<exists>sw. updateStudent 5 None None (Val 1) 10 fullClassDb
            = (Inr sw, afterUpdate 5 None None (Val 1) 10 fullClassDb) \<and> s_classId sw = Some 1) \<and>
   (\<nexists>n s. fst (updateStudent 5 None None (Val 1) 10 fullClassDb) = Inl (SectionFull n s)) \<and>
   (\<nexists>n s. fst (updateStudent 5 None None (Val 2) 10 fullClassDb) = Inl (SectionFull n s))"
proof -
  have s5: "lookupStudent 5 fullClassDb = Some (exampleStudent 5 ''Ann'' (Some 1))" by code_simp
  have c1: "lookupClass 1 fullClassDb = Some (exampleClass 1 ''Mathematics'' ''A'' (Some 1))" by code_simp
  have c2: "lookupClass 2 fullClassDb = Some (exampleClass 2 ''Science'' ''A'' None)" by code_simp
  have n1: "5 \<le> enrolledIn 1 fullClassDb" by code_simp
  have n2: "\<not> 5 \<le> enrolledIn 2 fullClassDb" by code_simp
  have f5: "s_classId (exampleStudent 5 ''Ann'' (Some 1)) = Some 1" by code_simp
  note T = updateStudent_same_class[OF s5 f5 c1, of None None 10]
  from T have a: "\<exists>sw. updateStudent 5 None None (Val 1) 10 fullClassDb
            = (Inr sw, afterUpdate 5 None None (Val 1) 10 fullClassDb) \<and> s_classId sw = Some 1"
    by blast
  from T c1 have b: "\<nexists>n s. fst (updateStudent 5 None None (Val 1) 10 fullClassDb) = Inl (SectionFull n s)"
    by blast
  from T c2 n2 have c: "\<nexists>n s. fst (updateStudent 5 None None (Val 2) 10 fullClassDb) = Inl (SectionFull n s)"
    by blast
  from a b c n1 show ?thesis by blast
qed

text \<open>
  C10. For an existing student, \<open>updateStudent\<close> with \<open>classId = null\<close> succeeds
  whatever the tables hold besides the student's row: no class is looked up and nothing is
  counted. It leaves the student's class reference null, with the time of the call, also
  when the reference was null already, where \<open>removeStudentFromClass\<close> throws
  "Student is not enrolled in any class".
\<close>

theorem updateStudent_null_class:
  assumes st: "lookupStudent sid d = Some st"
  shows "(\<exists>sw. updateStudent sid name age Null now d = (Inr sw, afterUpdate sid name age Null now d)
            \<and> s_classId sw = None \<and> swc_class sw = None)
       \<and> (\<exists>st'. lookupStudent sid (afterUpdate sid name age Null now d) = Some st'
            \<and> s_classId st' = None \<and> s_updatedAt st' = now)
       \<and> (s_classId st = None \<longrightarrow>
            removeStudentFromClass sid now d = (Inl NotEnrolled, d) \<and> kind NotEnrolled = PreconditionFailed)"
proof (intro conjI impI)
  have "classOf (updateRow name age Null now st) d' = None" for d'
    by (simp add: classOf_def find_None_iff)
  then show "\<exists>sw. updateStudent sid name age Null now d = (Inr sw, afterUpdate sid name age Null now d)
            \<and> s_classId sw = None \<and> swc_class sw = None"
    by (simp add: updateStudent_cases[OF st] Let_def withClass_def)
  show "\<exists>st'. lookupStudent sid (afterUpdate sid name age Null now d) = Some st'
            \<and> s_classId st' = None \<and> s_updatedAt st' = now"
    by (simp add: lookupStudent_afterUpdate[OF st])
  show "kind NotEnrolled = PreconditionFailed" by simp
next
  assume "s_classId st = None"
  then show "removeStudentFromClass sid now d = (Inl NotEnrolled, d)"
    by (simp add: removeStudentFromClass_cases st)
qed

theorem updateStudent_null_class_witness:
  "s_classId (exampleStudent 6 ''Fay'' None) = None \<and>
   (\<exists>sw. updateStudent 6 None None Null 10 fullClassDb
            = (Inr sw, afterUpdate 6 None None Null 10 fullClassDb) \<and> s_classId sw = None) \<and>
   removeStudentFromClass 6 10 fullClassDb = (Inl NotEnrolled, fullClassDb) \<and>
   (\<exists>sw. updateStudent 5 None None Null 10 fullClassDb
            = (Inr sw, afterUpdate 5 None None Null 10 fullClassDb) \<and> s_classId sw = None)"
proof -
  have s6: "lookupStudent 6 fullClassDb = Some (exampleStudent 6 ''Fay'' None)" by code_simp
  have s5: "lookupStudent 5 fullClassDb = Some (exampleStudent 5 ''Ann'' (Some 1))" by code_simp
  have f6: "s_classId (exampleStudent 6 ''Fay'' None) = None" by code_simp
  from updateStudent_null_class[OF s6, of None None 10] updateStudent_null_class[OF s5, of None None 10] f6
  show ?thesis by blast
qed

lemma getStudentById_inserted:
  assumes "s_id row \<notin> set (map s_id (students d))"
  shows "getStudentById (s_id row) (d\<lparr>students := students d @ [row], students_id_seq := n\<rparr>)
         = Inr (withClass (row, classOf row (d\<lparr>students := students d @ [row], students_id_seq := n\<rparr>)))"
proof -
  have "find (\<lambda>s. s_id s = s_id row) (students d) = None"
    using assms by (force simp: find_None_iff image_iff)
  then have "lookupStudent (s_id row) (d\<lparr>students := students d @ [row], students_id_seq := n\<rparr>) = Some row"
    by (simp add: lookupStudent_def find_app)
  then show ?thesis by (simp add: getStudentById_lookup)
qed

lemma createStudent_insert:
  "(case sql_insert s_id row (students d) of
      None \<Rightarrow> (Inl DatabaseError, d\<lparr>students_id_seq := n\<rparr>)
    | Some (table, returned) \<Rightarrow>
        (case first_row returned of
           None \<Rightarrow> (Inl DatabaseError, d\<lparr>students := table, students_id_seq := n\<rparr>)
         | Some createdStudent \<Rightarrow>
             (getStudentById (s_id createdStudent) (d\<lparr>students := table, students_id_seq := n\<rparr>),
              d\<lparr>students := table, students_id_seq := n\<rparr>)))
   = (if s_id row \<in> set (map s_id (students d)) then (Inl DatabaseError, d\<lparr>students_id_seq := n\<rparr>)
      else (Inr (withClass (row, classOf row (d\<lparr>students := students d @ [row], students_id_seq := n\<rparr>))),
            d\<lparr>students := students d @ [row], students_id_seq := n\<rparr>))"
  using getStudentById_inserted[of row d n] by (simp add: sql_insert_def first_row_def)

lemma createStudent_cases:
  "createStudent name age classId now d =
     (let row = \<lparr>s_id = students_id_seq d, s_name = name, s_age = age,
                 s_classId = (case classId of Val cid \<Rightarrow> if cid = 0 then None else Some cid | _ \<Rightarrow> None),
                 s_createdAt = now, s_updatedAt = now\<rparr>;
          d' = d\<lparr>students := students d @ [row], students_id_seq := Suc (students_id_seq d)\<rparr>;
          ins = (if students_id_seq d \<in> set (map s_id (students d))
                 then (Inl DatabaseError, d\<lparr>students_id_seq := Suc (students_id_seq d)\<rparr>)
                 else (Inr (withClass (row, classOf row d')), d'))
      in case classId of
           Val cid \<Rightarrow>
             if cid = 0 then ins
             else (case lookupClass cid d of
                     None \<Rightarrow> (Inl ClassDoesNotExist, d)
                   | Some cls \<Rightarrow>
                       if 5 \<le> enrolledIn cid d
                       then (Inl (SectionFull (c_name cls) (c_section cls)), d)
                       else ins)
         | _ \<Rightarrow> ins)"
  unfolding createStudent_def createStudent_insert Let_def
  by (simp add: studentCount_enrolledIn lookupClass_def split: field.splits option.splits)

text \<open>
  C7. When \<open>createStudent\<close> throws, the students table is as it was before the call. When
  it throws because the class does not exist or is full, which it does for a nonzero
  \<open>classId\<close> that no class has, or whose class has five students, the whole database is
  as it was.
\<close>

theorem createStudent_atomic:
  "(\<forall>e. fst (createStudent name age classId now d) = Inl e \<longrightarrow>
      students (snd (createStudent name age classId now d)) = students d \<and>
      (e = ClassDoesNotExist \<or> (\<exists>n s. e = SectionFull n s) \<longrightarrow>
         snd (createStudent name age classId now d) = d)) \<and>
   (\<forall>cid. classId = Val cid \<and> cid \<noteq> 0 \<and> lookupClass cid d = None \<longrightarrow>
      createStudent name age classId now d = (Inl ClassDoesNotExist, d)) \<and>
   (\<forall>cid cls. classId = Val cid \<and> cid \<noteq> 0 \<and> lookupClass cid d = Some cls \<and> 5 \<le> enrolledIn cid d \<longrightarrow>
      createStudent name age classId now d = (Inl (SectionFull (c_name cls) (c_section cls)), d))"
  by (auto simp: createStudent_cases Let_def split: field.splits option.splits if_splits)

theorem createStudent_atomic_witness:
  "createStudent ''Gil'' 11 (Val 1) 10 fullClassDb
     = (Inl (SectionFull (c_name (exampleClass 1 ''Mathematics'' ''A'' (Some 1)))
                         (c_section (exampleClass 1 ''Mathematics'' ''A'' (Some 1)))), fullClassDb) \<and>
   createStudent ''Gil'' 11 (Val 9) 10 fullClassDb = (Inl ClassDoesNotExist, fullClassDb) \<and>
   students (snd (createStudent ''Gil'' 11 (Val 9) 10 fullClassDb)) = students fullClassDb"
proof -
  have c1: "lookupClass 1 fullClassDb = Some (exampleClass 1 ''Mathematics'' ''A'' (Some 1))" by code_simp
  have c9: "lookupClass 9 fullClassDb = None" by code_simp
  have n1: "5 \<le> enrolledIn 1 fullClassDb" by code_simp
  have z: "(1::nat) \<noteq> 0" "(9::nat) \<noteq> 0" by simp_all
  have a: "createStudent ''Gil'' 11 (Val 1) 10 fullClassDb
     = (Inl (SectionFull (c_name (exampleClass 1 ''Mathematics'' ''A'' (Some 1)))
                         (c_section (exampleClass 1 ''Mathematics'' ''A'' (Some 1)))), fullClassDb)"
    using createStudent_atomic[of "''Gil''" 11 "Val 1" 10 fullClassDb] c1 n1 z by blast
  have b: "createStudent ''Gil'' 11 (Val 9) 10 fullClassDb = (Inl ClassDoesNotExist, fullClassDb)"
    using createStudent_atomic[of "''Gil''" 11 "Val 9" 10 fullClassDb] c9 z by blast
  then have "fst (createStudent ''Gil'' 11 (Val 9) 10 fullClassDb) = Inl ClassDoesNotExist" by simp
  with createStudent_atomic[of "''Gil''" 11 "Val 9" 10 fullClassDb]
  have "students (snd (createStudent ''Gil'' 11 (Val 9) 10 fullClassDb)) = students fullClassDb"
    by blast
  with a b show ?thesis by blast
qed

section \<open>The dashboard's enrollment rate\<close>

lemma enrolledStudents_count:
  "enrolledStudents d = length (filter (\<lambda>s. s_classId s \<noteq> None) (students d))"
  by (simp add: enrolledStudents_def sql_where_def sql_eq_self)

text \<open>
  C8 as stated fails: the only student of \<open>loneStudentDb\<close> has no class, the comparison
  of its NULL \<open>classId\<close> with itself is NULL, the row is not counted, and the rate is 0.
\<close>

theorem enrollmentRate_counterexample:
  "students loneStudentDb \<noteq> [] \<and> enrolledStudents loneStudentDb = 0 \<and>
   ds_enrollmentRate (getDashboardStats loneStudentDb) = 0 \<and>
   ds_enrollmentRate (getDashboardStats loneStudentDb) \<noteq> 100"
  by (simp add: getDashboardStats_def enrolledStudents_count loneStudentDb_def exampleStudent_def Let_def)

text \<open>
  C8, amended. The condition \<open>students.classId = students.classId\<close> holds on exactly the
  rows whose \<open>classId\<close> is not NULL, so the count behind the rate is the number of students
  with a class reference. The rate is 100 when there are students and each has a class
  reference, and 0 when no student has one.
\<close>

theorem enrollmentRate_counts_enrolled:
  "enrolledStudents d = length (filter (\<lambda>s. s_classId s \<noteq> None) (students d)) \<and>
   (students d \<noteq> [] \<and> (\<forall>s \<in> set (students d). s_classId s \<noteq> None) \<longrightarrow>
      ds_enrollmentRate (getDashboardStats d) = 100) \<and>
   ((\<forall>s \<in> set (students d). s_classId s = None) \<longrightarrow>
      ds_enrollmentRate (getDashboardStats d) = 0)"
proof (intro conjI impI)
  show "enrolledStudents d = length (filter (\<lambda>s. s_classId s \<noteq> None) (students d))"
    by (rule enrolledStudents_count)
next
  assume a: "students d \<noteq> [] \<and> (\<forall>s \<in> set (students d). s_classId s \<noteq> None)"
  then have "filter (\<lambda>s. s_classId s \<noteq> None) (students d) = students d"
    by (simp add: filter_id_conv)
  with a show "ds_enrollmentRate (getDashboardStats d) = 100"
    by (simp add: getDashboardStats_def enrolledStudents_count Let_def)
next
  assume "\<forall>s \<in> set (students d). s_classId s = None"
  then have "filter (\<lambda>s. s_classId s \<noteq> None) (students d) = []"
    by (simp add: filter_empty_conv)
  then show "ds_enrollmentRate (getDashboardStats d) = 0"
    by (simp add: getDashboardStats_def enrolledStudents_count Let_def)
qed

theorem enrollmentRate_counts_enrolled_witness:
  "students enrolledPairDb \<noteq> [] \<and> list_all (\<lambda>s. s_classId s \<noteq> None) (students enrolledPairDb) \<and>
   ds_enrollmentRate (getDashboardStats enrolledPairDb) = 100 \<and>
   list_all (\<lambda>s. s_classId s = None) (students loneStudentDb) \<and>
   ds_enrollmentRate (getDashboardStats loneStudentDb) = 0 \<and>
   enrolledStudents fullClassDb = length (filter (\<lambda>s. s_classId s \<noteq> None) (students fullClassDb))"
proof -
  have h1: "students enrolledPairDb \<noteq> []" by code_simp
  have h2: "list_all (\<lambda>s. s_classId s \<noteq> None) (students enrolledPairDb)" by code_simp
  have h3: "list_all (\<lambda>s. s_classId s = None) (students loneStudentDb)" by code_simp
  from h2 have h2': "\<forall>s \<in> set (students enrolledPairDb). s_classId s \<noteq> None"
    by (simp only: list_all_iff)
  from h3 have h3': "\<forall>s \<in> set (students loneStudentDb). s_classId s = None"
    by (simp only: list_all_iff)
  from enrollmentRate_counts_enrolled[of enrolledPairDb] enrollmentRate_counts_enrolled[of loneStudentDb]
    enrollmentRate_counts_enrolled[of fullClassDb] h1 h2 h3 h2' h3'
  show ?thesis by blast
qed

section \<open>The pages of getStudents\<close>











section \<open>createClass and assignTeacherToClass at the limits\<close>

lemma first_row_single: "first_row [r] = Some r"
  by (simp add: first_row_def)

lemma createClass_no_capacity_check:
  "fst (createClass name section teacherId now d) \<noteq> Inl TeacherSectionLimit"
  by (simp add: createClass_def Let_def sql_insert_def first_row_def split: option.splits)

lemma createClass_invalid_teacher:
  assumes "teacherById t d = None" and "t \<noteq> 0"
  shows "createClass name section (Some t) now d = (Inl InvalidTeacherId, d) \<or>
         createClass name section (Some t) now d = (Inl (ClassAlreadyExists name section), d)"
  using assms by (simp add: createClass_def Let_def)

lemma createClass_duplicate_unnoticed:
  assumes "find (\<lambda>c. c_name c = name) (classes d) = Some c0" and "c_section c0 \<noteq> section"
  shows "fst (createClass name section None now d) \<noteq> Inl (ClassAlreadyExists name section)"
  using assms
  by (simp add: createClass_def Let_def sql_insert_def first_row_single split: option.splits)

lemma assignTeacherToClass_at_limit:
  assumes "lookupClass classId d \<noteq> None" and "teacherById teacherId d \<noteq> None"
    and "5 \<le> length (teacherClasses teacherId d)"
  shows "assignTeacherToClass classId teacherId now d = (Inl TeacherSectionLimit, d)"
  using assms by (auto simp: assignTeacherToClass_def getClassById_lookup split: option.splits)

text \<open>
  C3. Teacher 1 of \<open>teacherLimitDb\<close> owns five classes. \<open>createClass\<close> with
  \<open>teacherId = 1\<close> looks the teacher up and inserts: it does not count the teacher's
  classes, it succeeds, and the teacher then owns six.
\<close>

theorem createClass_sixth_class:
  "teacherById 1 teacherLimitDb \<noteq> None \<and>
   length (teacherClasses 1 teacherLimitDb) = 5 \<and>
   fst (createClass ''Physics'' ''A'' (Some 1) 10 teacherLimitDb)
     = Inr \<lparr>c_id = 7, c_name = ''Physics'', c_section = ''A'', c_teacherId = Some 1,
            c_createdAt = 10, c_updatedAt = 10\<rparr> \<and>
   length (teacherClasses 1 (snd (createClass ''Physics'' ''A'' (Some 1) 10 teacherLimitDb))) = 6"
  by code_simp

text \<open>
  C4. Teacher 1 of \<open>teacherLimitDb\<close> owns exactly five classes, class 1 among them, and
  does not own class 6. \<open>assignTeacherToClass\<close> counts the teacher's classes without
  looking at the class being assigned, so both the re-assignment of class 1 and the
  assignment of class 6 throw "Teacher cannot be assigned to more than 5 sections".
\<close>

theorem assignTeacherToClass_reassign_at_limit:
  "map c_id (teacherClasses 1 teacherLimitDb) = [1, 2, 3, 4, 5] \<and>
   assignTeacherToClass 1 1 10 teacherLimitDb = (Inl TeacherSectionLimit, teacherLimitDb) \<and>
   assignTeacherToClass 6 1 10 teacherLimitDb = (Inl TeacherSectionLimit, teacherLimitDb)"
proof -
  have ids: "map c_id (teacherClasses 1 teacherLimitDb) = [1, 2, 3, 4, 5]" by code_simp
  then have "length (map c_id (teacherClasses 1 teacherLimitDb)) = 5" by simp
  then have n: "5 \<le> length (teacherClasses 1 teacherLimitDb)" by simp
  have t: "teacherById 1 teacherLimitDb \<noteq> None" by code_simp
  have c1: "lookupClass 1 teacherLimitDb \<noteq> None" and c6: "lookupClass 6 teacherLimitDb \<noteq> None"
    by code_simp+
  from ids assignTeacherToClass_at_limit[OF c1 t n] assignTeacherToClass_at_limit[OF c6 t n]
  show ?thesis by blast
qed

text \<open>
  C5. After \<open>createClass("Science", "A")\<close> and \<open>createClass("Science", "B")\<close> on a fresh
  database, a second \<open>createClass("Science", "B")\<close> succeeds and the pair is there twice:
  the duplicate check reads one row named Science, finds section A, and is satisfied. Were
  the rows scanned in the opposite order, the second \<open>createClass("Science", "A")\<close> would
  be the one that succeeds.
\<close>

theorem createClass_duplicate_pair:
  "map (\<lambda>c. (c_name c, c_section c)) (classes scienceDb) = [(''Science'', ''A''), (''Science'', ''B'')] \<and>
   fst (createClass ''Science'' ''B'' None 3 scienceDb)
     = Inr \<lparr>c_id = 3, c_name = ''Science'', c_section = ''B'', c_teacherId = None,
            c_createdAt = 3, c_updatedAt = 3\<rparr> \<and>
   map (\<lambda>c. (c_name c, c_section c)) (classes (snd (createClass ''Science'' ''B'' None 3 scienceDb)))
     = [(''Science'', ''A''), (''Science'', ''B''), (''Science'', ''B'')] \<and>
   fst (createClass ''Science'' ''A'' None 3 scienceDb) = Inl (ClassAlreadyExists ''Science'' ''A'') \<and>
   fst (createClass ''Science'' ''A'' None 3 scienceDbReversed)
     = Inr \<lparr>c_id = 3, c_name = ''Science'', c_section = ''A'', c_teacherId = None,
            c_createdAt = 3, c_updatedAt = 3\<rparr>"
  by code_simp

end
